theory Spec2Isabelle
  imports Complex_Main "HOL-Library.AList" "HOL-Library.Sublist"
begin

section \<open>Values, dictionaries and exceptions\<close>

text \<open>
  The program keeps its tasks in a Python dictionary \<^verbatim>\<open>self.tasks\<close> from task names to
  task dictionaries, and each task dictionary maps field names to JSON scalars. The
  values the program itself ever stores are strings, integers, booleans and \<^verbatim>\<open>None\<close>;
  these four kinds are the value universe here (floats, lists and nested objects of a
  hand-edited document are outside it). A dictionary is an association list: Python
  dictionaries keep insertion order, an assignment to a present key replaces the value
  in place and an assignment to a new key appends, which is what \<^const>\<open>AList.update\<close>
  does.
\<close>

datatype pyval = PNone | PBool bool | PInt int | PStr string

type_synonym task = "(string \<times> pyval) list"

type_synonym store = "(string \<times> task) list"

text \<open>Decimal rendering of a natural number and of an integer, as an f-string prints them.\<close>

fun show_nat :: "nat \<Rightarrow> string" where
  "show_nat n =
     (if n < 10 then [''0123456789'' ! n]
      else show_nat (n div 10) @ [''0123456789'' ! (n mod 10)])"

definition show_int :: "int \<Rightarrow> string" where
  "show_int i = (if i < 0 then ''-'' @ show_nat (nat (- i)) else show_nat (nat i))"

text \<open>
  \<^verbatim>\<open>repr\<close> of a string of ASCII characters: single quotes, or double quotes when the
  string holds a single quote and no double one; the backslash, the chosen quote, tab,
  newline and carriage return are escaped, any other control character is written
  \<^verbatim>\<open>\xhh\<close>.
\<close>

definition hex2 :: "nat \<Rightarrow> string" where
  "hex2 n = [''0123456789abcdef'' ! (n div 16), ''0123456789abcdef'' ! (n mod 16)]"

definition escape_char :: "char \<Rightarrow> char \<Rightarrow> string" where
  "escape_char q c =
     (if c = CHR 0x5C then [CHR 0x5C, CHR 0x5C]
      else if c = q then [CHR 0x5C, q]
      else if c = CHR 0x09 then [CHR 0x5C, CHR ''t'']
      else if c = CHR 0x0A then [CHR 0x5C, CHR ''n'']
      else if c = CHR 0x0D then [CHR 0x5C, CHR ''r'']
      else if of_char c < (32::nat) \<or> of_char c = (127::nat)
      then [CHR 0x5C, CHR ''x''] @ hex2 (of_char c)
      else [c])"

definition quote_of :: "string \<Rightarrow> char" where
  "quote_of s = (if CHR 0x27 \<in> set s \<and> CHR 0x22 \<notin> set s then CHR 0x22 else CHR 0x27)"

definition py_repr_str :: "string \<Rightarrow> string" where
  "py_repr_str s = [quote_of s] @ concat (map (escape_char (quote_of s)) s) @ [quote_of s]"

text \<open>
  Exceptions are values. Each constructor is a Python exception class. \<open>KeyError\<close>
  carries the missing key; \<open>OSError\<close> carries the error number, its message and the file
  name, as the operating system reports them; the others carry the message that
  \<^verbatim>\<open>str(e)\<close> yields.
\<close>

datatype exn =
    KeyError string
  | TypeError string
  | ValueError string
  | OverflowError string
  | OSError nat string string
  | JSONDecodeError string
  | UnicodeDecodeError string

text \<open>
  \<^verbatim>\<open>str(e)\<close>. For a \<open>KeyError\<close> it is the \<^verbatim>\<open>repr\<close> of the key, for an \<open>OSError\<close> with a file
  name the text \<^verbatim>\<open>[Errno n] message: 'file'\<close>.
\<close>

fun str_exn :: "exn \<Rightarrow> string" where
  "str_exn (KeyError k) = py_repr_str k"
| "str_exn (TypeError m) = m"
| "str_exn (ValueError m) = m"
| "str_exn (OverflowError m) = m"
| "str_exn (OSError n m f) = ''[Errno '' @ show_nat n @ ''] '' @ m @ '': '' @ py_repr_str f"
| "str_exn (JSONDecodeError m) = m"
| "str_exn (UnicodeDecodeError m) = m"

text \<open>Truth value of a Python object, as \<^verbatim>\<open>not x\<close> and \<^verbatim>\<open>if x\<close> read it.\<close>

fun truthy :: "pyval \<Rightarrow> bool" where
  "truthy PNone = False"
| "truthy (PBool b) = b"
| "truthy (PInt i) = (i \<noteq> 0)"
| "truthy (PStr s) = (s \<noteq> [])"

text \<open>\<^verbatim>\<open>d[k]\<close>: a missing key raises \<open>KeyError\<close>.\<close>

definition getitem :: "task \<Rightarrow> string \<Rightarrow> exn + pyval" where
  "getitem d k = (case map_of d k of None \<Rightarrow> Inl (KeyError k) | Some v \<Rightarrow> Inr v)"

text \<open>\<^verbatim>\<open>d.get(k, default)\<close>.\<close>

definition get_default :: "task \<Rightarrow> string \<Rightarrow> pyval \<Rightarrow> pyval" where
  "get_default d k dflt = (case map_of d k of None \<Rightarrow> dflt | Some v \<Rightarrow> v)"

text \<open>\<^verbatim>\<open>str(x)\<close>, which an f-string applies to the value it interpolates, and \<^verbatim>\<open>repr(x)\<close>.\<close>

fun py_str :: "pyval \<Rightarrow> string" where
  "py_str PNone = ''None''"
| "py_str (PBool b) = (if b then ''True'' else ''False'')"
| "py_str (PInt i) = show_int i"
| "py_str (PStr s) = s"

fun py_repr :: "pyval \<Rightarrow> string" where
  "py_repr (PStr s) = py_repr_str s"
| "py_repr v = py_str v"

text \<open>The name of the type of a value, as error messages print it.\<close>

fun type_name :: "pyval \<Rightarrow> string" where
  "type_name PNone = ''NoneType''"
| "type_name (PBool b) = ''bool''"
| "type_name (PInt i) = ''int''"
| "type_name (PStr s) = ''str''"

section \<open>The world outside the process\<close>

text \<open>
  The persisted document \<^verbatim>\<open>web_tasks.json\<close> is described by what \<^verbatim>\<open>os.path.exists\<close>,
  \<^verbatim>\<open>open\<close> and \<^verbatim>\<open>json.load\<close> make of it: it is absent, or its text is the JSON
  serialisation of a store, or its text is not JSON (\<^verbatim>\<open>json.load\<close> raises
  \<^verbatim>\<open>JSONDecodeError\<close> with the message given), or its bytes are not text in the default
  encoding (reading raises \<^verbatim>\<open>UnicodeDecodeError\<close> with the message given), or it may not
  be opened (\<^verbatim>\<open>open\<close> raises \<^verbatim>\<open>OSError\<close> with the error number and message given).
\<close>

datatype document = NoFile | JsonOf store | NotJson string | NotText string | Locked nat string

text \<open>A path of the file system holds a regular file with its modification time, or a directory.\<close>

datatype node = File real | Dir

text \<open>
  The world is what the program reads and changes outside its own memory. The clock is
  read through \<^verbatim>\<open>time.time()\<close> (seconds, taken as exact reals: the rounding of floats is
  not modelled) and through \<^verbatim>\<open>datetime.now()\<close> in the three renderings the program uses;
  one call of the program happens at one instant. \<open>denied p\<close> says that creating,
  truncating, appending to or removing \<open>p\<close> raises \<^verbatim>\<open>OSError\<close>, and \<open>why_denied p\<close> is
  the error number and message it then carries. \<open>glob_of d pat\<close> is what
  \<^verbatim>\<open>Path(d).glob(pat)\<close> yields for a string pattern, the empty one included, or the
  exception it raises; the matching itself is \<^verbatim>\<open>pathlib\<close>'s. A source directory is looked
  up under the string the task names it by, and the two files of the program itself
  are kept apart from the directories the tasks work on.
\<close>

record world =
  time_time :: real
  now_isoformat :: string
  now_backup_stamp :: string
  now_alert_stamp :: string
  config_doc :: document
  alert_log :: string
  nodes :: "string \<Rightarrow> node option"
  denied :: "string \<Rightarrow> bool"
  why_denied :: "string \<Rightarrow> nat \<times> string"
  glob_of :: "string \<Rightarrow> string \<Rightarrow> exn + string list"

text \<open>
  The task manager: the in-memory mapping \<^verbatim>\<open>self.tasks\<close>, the flag \<^verbatim>\<open>self.running\<close>, the
  number of scheduler threads started so far, and the world it runs in.
\<close>

record manager =
  tasks :: store
  running :: bool
  spawned :: nat
  os :: world

definition config_file :: string where
  "config_file = ''web_tasks.json''"

definition alert_file :: string where
  "alert_file = ''web_alerts.log''"

section \<open>The task store\<close>

text \<open>An \<open>OSError\<close> on a file, from an error number and message.\<close>

definition os_error :: "nat \<times> string \<Rightarrow> string \<Rightarrow> exn" where
  "os_error why p = OSError (fst why) (snd why) p"

text \<open>\<^verbatim>\<open>with open(self.config_file, 'r') as f: return json.load(f)\<close>\<close>

fun json_load :: "document \<Rightarrow> exn + store" where
  "json_load NoFile = Inl (OSError 2 ''No such file or directory'' config_file)"
| "json_load (JsonOf s) = Inr s"
| "json_load (NotJson msg) = Inl (JSONDecodeError msg)"
| "json_load (NotText msg) = Inl (UnicodeDecodeError msg)"
| "json_load (Locked n msg) = Inl (OSError n msg config_file)"

text \<open>
  \<^verbatim>\<open>load_tasks\<close>: only \<^verbatim>\<open>json.JSONDecodeError\<close> is caught; any other exception of the
  read leaves the function.
\<close>

definition load_tasks :: "world \<Rightarrow> exn + store" where
  "load_tasks w =
     (if config_doc w \<noteq> NoFile then
        (case json_load (config_doc w) of
           Inl (JSONDecodeError m) \<Rightarrow> Inr []
         | Inl e \<Rightarrow> Inl e
         | Inr s \<Rightarrow> Inr s)
      else Inr [])"

text \<open>
  \<^verbatim>\<open>save_tasks\<close>: the document is opened for writing and the whole mapping is dumped into
  it. When the file may not be opened the exception leaves \<^verbatim>\<open>save_tasks\<close> and the document
  is as it was.
\<close>

definition save_tasks :: "manager \<Rightarrow> (exn + unit) \<times> manager" where
  "save_tasks m =
     (if denied (os m) config_file
      then (Inl (os_error (why_denied (os m) config_file) config_file), m)
      else (Inr (), m\<lparr>os := (os m)\<lparr>config_doc := JsonOf (tasks m)\<rparr>\<rparr>))"

text \<open>
  The scheduler controls, as far as the calling thread goes: \<^verbatim>\<open>stop_scheduler\<close> clears the
  flag, \<^verbatim>\<open>start_scheduler\<close> starts a thread when the flag is clear, \<^verbatim>\<open>restart_scheduler\<close>
  does the one, sleeps and does the other. The started thread sets the flag and fires the
  jobs on its own; that is not part of the call. None of the three touches the mapping
  or the document.
\<close>

definition stop_scheduler :: "manager \<Rightarrow> manager" where
  "stop_scheduler m = m\<lparr>running := False\<rparr>"

definition start_scheduler :: "manager \<Rightarrow> manager" where
  "start_scheduler m = (if \<not> running m then m\<lparr>spawned := Suc (spawned m)\<rparr> else m)"

definition restart_scheduler :: "manager \<Rightarrow> manager" where
  "restart_scheduler m = start_scheduler (stop_scheduler m)"

text \<open>
  The dictionary display of \<^verbatim>\<open>add_task\<close>: the five fixed fields, then \<^verbatim>\<open>**kwargs\<close>, whose
  entries are assigned in order after them (a keyword named like a fixed field replaces
  its value). Python binds a keyword named \<^verbatim>\<open>name\<close>, \<^verbatim>\<open>task_type\<close> or \<^verbatim>\<open>schedule_time\<close> to the
  parameter of that name, so no such key occurs among the keywords.
\<close>

definition new_task :: "world \<Rightarrow> pyval \<Rightarrow> pyval \<Rightarrow> task \<Rightarrow> task" where
  "new_task w task_type schedule_time kwargs =
     fold (\<lambda>(k, v). AList.update k v) kwargs
       [(''type'', task_type),
        (''schedule'', schedule_time),
        (''created'', PStr (now_isoformat w)),
        (''enabled'', PBool True),
        (''last_run'', PNone)]"

definition add_task :: "manager \<Rightarrow> string \<Rightarrow> pyval \<Rightarrow> pyval \<Rightarrow> task \<Rightarrow> (exn + bool) \<times> manager" where
  "add_task m name task_type schedule_time kwargs =
     (let t = new_task (os m) task_type schedule_time kwargs;
          m1 = m\<lparr>tasks := AList.update name t (tasks m)\<rparr>
      in case save_tasks m1 of
           (Inl e, m2) \<Rightarrow> (Inl e, m2)
         | (Inr u, m2) \<Rightarrow> (Inr True, restart_scheduler m2))"

definition remove_task :: "manager \<Rightarrow> string \<Rightarrow> (exn + bool) \<times> manager" where
  "remove_task m name =
     (case map_of (tasks m) name of
        None \<Rightarrow> (Inr False, m)
      | Some t \<Rightarrow>
          (case save_tasks (m\<lparr>tasks := AList.delete name (tasks m)\<rparr>) of
             (Inl e, m2) \<Rightarrow> (Inl e, m2)
           | (Inr u, m2) \<Rightarrow> (Inr True, restart_scheduler m2)))"

text \<open>
  \<^verbatim>\<open>toggle_task\<close>: \<^verbatim>\<open>not self.tasks[name]['enabled']\<close> is a boolean whatever the stored
  value was; a task without the field raises \<open>KeyError\<close> before anything is changed.
\<close>

definition toggle_task :: "manager \<Rightarrow> string \<Rightarrow> (exn + bool) \<times> manager" where
  "toggle_task m name =
     (case map_of (tasks m) name of
        None \<Rightarrow> (Inr False, m)
      | Some t \<Rightarrow>
          (case getitem t ''enabled'' of
             Inl e \<Rightarrow> (Inl e, m)
           | Inr v \<Rightarrow>
               (case save_tasks
                       (m\<lparr>tasks := AList.update name
                                     (AList.update ''enabled'' (PBool (\<not> truthy v)) t) (tasks m)\<rparr>) of
                  (Inl e, m2) \<Rightarrow> (Inl e, m2)
                | (Inr u, m2) \<Rightarrow> (Inr True, restart_scheduler m2))))"

section \<open>The task bodies\<close>

text \<open>
  \<^verbatim>\<open>Path(x)\<close> accepts a string; any other value of the universe raises \<open>TypeError\<close>
  (the message texts of this section are those of CPython 3.11).
\<close>

fun path_of :: "pyval \<Rightarrow> exn + string" where
  "path_of (PStr s) = Inr s"
| "path_of v =
     Inl (TypeError (''expected str, bytes or os.PathLike object, not '' @ type_name v))"

text \<open>
  The pattern handed to \<^verbatim>\<open>glob\<close>: a string goes to the matcher; a value that is not a string
  is refused by \<^verbatim>\<open>glob\<close> itself, with \<open>ValueError\<close> when it is false and with \<open>TypeError\<close>
  otherwise.
\<close>

fun pattern_of :: "pyval \<Rightarrow> exn + string" where
  "pattern_of (PStr s) = Inr s"
| "pattern_of v =
     (if truthy v
      then Inl (TypeError ([CHR 0x27] @ type_name v @ [CHR 0x27] @ '' object is not subscriptable''))
      else Inl (ValueError (''Unacceptable pattern: '' @ py_repr v)))"

text \<open>
  The largest magnitude an integer may have for \<^verbatim>\<open>time.time() - n\<close> to convert it to a
  float; from there on the subtraction raises \<open>OverflowError\<close>.
\<close>

definition float_limit :: int where
  "float_limit = 2 ^ 1024 - 2 ^ 970"

text \<open>
  \<^verbatim>\<open>days_old * 24 * 60 * 60\<close> as the number subtracted from \<^verbatim>\<open>time.time()\<close>: an integer
  (a boolean is one) gives its product, which must fit a float; \<^verbatim>\<open>None\<close> fails at the
  product and a string at the subtraction, both with \<open>TypeError\<close>.
\<close>

fun seconds_of :: "pyval \<Rightarrow> exn + real" where
  "seconds_of (PInt n) =
     (if \<bar>n * 24 * 60 * 60\<bar> < float_limit then Inr (real_of_int (n * 24 * 60 * 60))
      else Inl (OverflowError ''int too large to convert to float''))"
| "seconds_of (PBool b) = Inr (if b then 24 * 60 * 60 else 0)"
| "seconds_of PNone =
     Inl (TypeError (''unsupported operand type(s) for *: '' @ [CHR 0x27] @ ''NoneType''
                       @ [CHR 0x27] @ '' and '' @ [CHR 0x27] @ ''int'' @ [CHR 0x27]))"
| "seconds_of (PStr s) =
     Inl (TypeError (''unsupported operand type(s) for -: '' @ [CHR 0x27] @ ''float''
                       @ [CHR 0x27] @ '' and '' @ [CHR 0x27] @ ''str'' @ [CHR 0x27]))"

definition is_file :: "world \<Rightarrow> string \<Rightarrow> bool" where
  "is_file w p = (case nodes w p of Some (File t) \<Rightarrow> True | _ \<Rightarrow> False)"

definition st_mtime :: "world \<Rightarrow> string \<Rightarrow> real" where
  "st_mtime w p = (case nodes w p of Some (File t) \<Rightarrow> t | _ \<Rightarrow> 0)"

definition unlink :: "world \<Rightarrow> string \<Rightarrow> world" where
  "unlink w p = w\<lparr>nodes := (nodes w)(p := None)\<rparr>"

text \<open>
  The loop of \<^verbatim>\<open>execute_file_cleanup\<close> over the paths the glob yields, with the count of
  deleted files. A path is removed when it is a regular file whose modification time is
  strictly below the cutoff; an \<^verbatim>\<open>unlink\<close> that raises is passed over and not counted.
  \<open>st_mtime\<close> is read only after \<open>is_file\<close> said yes, as \<^verbatim>\<open>and\<close> does.
\<close>

fun cleanup_loop :: "real \<Rightarrow> string list \<Rightarrow> world \<Rightarrow> nat \<Rightarrow> world \<times> nat" where
  "cleanup_loop cutoff_time [] w deleted_count = (w, deleted_count)"
| "cleanup_loop cutoff_time (p # ps) w deleted_count =
     (if is_file w p \<and> st_mtime w p < cutoff_time then
        (if denied w p then cleanup_loop cutoff_time ps w deleted_count
         else cleanup_loop cutoff_time ps (unlink w p) (Suc deleted_count))
      else cleanup_loop cutoff_time ps w deleted_count)"

text \<open>The \<^verbatim>\<open>try\<close> block of \<^verbatim>\<open>execute_file_cleanup\<close>.\<close>

definition cleanup_try :: "world \<Rightarrow> pyval \<Rightarrow> pyval \<Rightarrow> pyval \<Rightarrow> (exn + string) \<times> world" where
  "cleanup_try w source_dir days_old file_pattern =
     (case path_of source_dir of
        Inl e \<Rightarrow> (Inl e, w)
      | Inr d \<Rightarrow>
          if nodes w d = None then (Inr (''Directory '' @ d @ '' does not exist''), w)
          else
            (case seconds_of days_old of
               Inl e \<Rightarrow> (Inl e, w)
             | Inr secs \<Rightarrow>
                 (case pattern_of file_pattern of
                    Inl e \<Rightarrow> (Inl e, w)
                  | Inr pat \<Rightarrow>
                      (case glob_of w d pat of
                         Inl e \<Rightarrow> (Inl e, w)
                       | Inr ps \<Rightarrow>
                           (case cleanup_loop (time_time w - secs) ps w 0 of
                              (w', n) \<Rightarrow>
                                (Inr (''Deleted '' @ show_nat n @ '' files from '' @ d), w'))))))"

text \<open>The \<^verbatim>\<open>except Exception\<close> clause of a task body: the exception becomes the result text.\<close>

definition error_text :: "(exn + string) \<times> world \<Rightarrow> (exn + string) \<times> world" where
  "error_text r =
     (case r of
        (Inl e, w) \<Rightarrow> (Inr (''Error: '' @ str_exn e), w)
      | (Inr s, w) \<Rightarrow> (Inr s, w))"

definition execute_file_cleanup ::
    "world \<Rightarrow> pyval \<Rightarrow> pyval \<Rightarrow> pyval \<Rightarrow> (exn + string) \<times> world" where
  "execute_file_cleanup w source_dir days_old file_pattern =
     error_text (cleanup_try w source_dir days_old file_pattern)"

text \<open>
  \<^verbatim>\<open>backup_path.mkdir(parents=True, exist_ok=True)\<close>: an existing directory is left alone,
  an existing file raises. The ancestors that \<^verbatim>\<open>parents=True\<close> creates on the way are not
  tracked.
\<close>

definition mkdir :: "world \<Rightarrow> string \<Rightarrow> exn + world" where
  "mkdir w p =
     (case nodes w p of
        Some Dir \<Rightarrow> Inr w
      | Some (File t) \<Rightarrow> Inl (OSError 17 ''File exists'' p)
      | None \<Rightarrow>
          if denied w p then Inl (os_error (why_denied w p) p)
          else Inr (w\<lparr>nodes := (nodes w)(p \<mapsto> Dir)\<rparr>))"

text \<open>
  \<^verbatim>\<open>shutil.copytree(src, dst)\<close>: the source must be a directory (it is listed first) and
  the destination must not exist; the tree below the source then appears below the
  destination.
\<close>

definition copytree :: "world \<Rightarrow> string \<Rightarrow> string \<Rightarrow> exn + world" where
  "copytree w src dst =
     (if nodes w src \<noteq> Some Dir then Inl (OSError 20 ''Not a directory'' src)
      else if nodes w dst \<noteq> None then Inl (OSError 17 ''File exists'' dst)
      else if denied w dst then Inl (os_error (why_denied w dst) dst)
      else Inr (w\<lparr>nodes := (\<lambda>p. if p = dst then Some Dir
                                else if prefix (dst @ ''/'') p
                                then nodes w (src @ drop (length dst) p)
                                else nodes w p)\<rparr>))"

text \<open>
  A \<^verbatim>\<open>Path\<close> keeps its string in normal form: one leading slash (two when the string
  starts with exactly two), the components between slashes without the empty ones and
  the dots, joined by single slashes; the empty path prints as a dot. \<open>path_str s\<close> is
  \<^verbatim>\<open>str(Path(s))\<close> and \<open>path_child s name\<close> is \<^verbatim>\<open>str(Path(s) / name)\<close> for a one-component name.
\<close>

fun split_slash :: "string \<Rightarrow> string list" where
  "split_slash [] = [[]]"
| "split_slash (c # cs) =
     (if c = CHR ''/'' then [] # split_slash cs
      else (case split_slash cs of [] \<Rightarrow> [[c]] | p # ps \<Rightarrow> (c # p) # ps))"

definition path_root :: "string \<Rightarrow> string" where
  "path_root s =
     (if length (takeWhile (\<lambda>c. c = CHR ''/'') s) = 0 then []
      else if length (takeWhile (\<lambda>c. c = CHR ''/'') s) = 2 then ''//''
      else ''/'')"

definition path_parts :: "string \<Rightarrow> string list" where
  "path_parts s = filter (\<lambda>p. p \<noteq> [] \<and> p \<noteq> ''.'') (split_slash s)"

fun join_slash :: "string list \<Rightarrow> string" where
  "join_slash [] = []"
| "join_slash [p] = p"
| "join_slash (p # q # ps) = p @ ''/'' @ join_slash (q # ps)"

definition render_path :: "string \<Rightarrow> string list \<Rightarrow> string" where
  "render_path rt parts = (if rt = [] \<and> parts = [] then ''.'' else rt @ join_slash parts)"

definition path_str :: "string \<Rightarrow> string" where
  "path_str s = render_path (path_root s) (path_parts s)"

definition path_child :: "string \<Rightarrow> string \<Rightarrow> string" where
  "path_child s name = render_path (path_root s) (path_parts s @ [name])"

text \<open>
  The \<^verbatim>\<open>try\<close> block of \<^verbatim>\<open>execute_file_backup\<close>. The backup directory is made and extended
  through its \<^verbatim>\<open>Path\<close>; the source is handed to \<^verbatim>\<open>copytree\<close> and printed as the string it
  is.
\<close>

definition backup_try :: "world \<Rightarrow> pyval \<Rightarrow> pyval \<Rightarrow> (exn + string) \<times> world" where
  "backup_try w source_dir backup_dir =
     (case path_of source_dir of
        Inl e \<Rightarrow> (Inl e, w)
      | Inr s \<Rightarrow>
          (case path_of backup_dir of
             Inl e \<Rightarrow> (Inl e, w)
           | Inr b \<Rightarrow>
               if nodes w s = None
               then (Inr (''Source directory '' @ s @ '' does not exist''), w)
               else
                 (case mkdir w (path_str b) of
                    Inl e \<Rightarrow> (Inl e, w)
                  | Inr w1 \<Rightarrow>
                      (let backup_subdir = path_child b (''backup_'' @ now_backup_stamp w1)
                       in case copytree w1 s backup_subdir of
                            Inl e \<Rightarrow> (Inl e, w1)
                          | Inr w2 \<Rightarrow>
                              (Inr (''Backup completed: '' @ s @ '' -> '' @ backup_subdir),
                               w2)))))"

definition execute_file_backup :: "world \<Rightarrow> pyval \<Rightarrow> pyval \<Rightarrow> (exn + string) \<times> world" where
  "execute_file_backup w source_dir backup_dir = error_text (backup_try w source_dir backup_dir)"

text \<open>
  \<^verbatim>\<open>execute_alert\<close> has no \<^verbatim>\<open>try\<close>: when the log may not be opened for appending, the
  exception leaves the body.
\<close>

definition execute_alert :: "world \<Rightarrow> pyval \<Rightarrow> (exn + string) \<times> world" where
  "execute_alert w message =
     (let alert_msg = ''['' @ now_alert_stamp w @ ''] ALERT: '' @ py_str message
      in if denied w alert_file then (Inl (os_error (why_denied w alert_file) alert_file), w)
         else (Inr (''Alert logged: '' @ py_str message),
               w\<lparr>alert_log := alert_log w @ alert_msg @ [CHR 0x0A]\<rparr>))"

section \<open>Executing a task\<close>

text \<open>
  The dispatch of \<^verbatim>\<open>execute_task\<close> on \<^verbatim>\<open>task['type']\<close>, inside its \<^verbatim>\<open>try\<close>: the arguments
  are read from the task (a missing required field raises \<open>KeyError\<close>) and the body is
  run; a type that is none of the three leaves \<^verbatim>\<open>result\<close> at the empty string.
\<close>

definition run_body :: "world \<Rightarrow> task \<Rightarrow> (exn + string) \<times> world" where
  "run_body w task =
     (case getitem task ''type'' of
        Inl e \<Rightarrow> (Inl e, w)
      | Inr task_type \<Rightarrow>
          if task_type = PStr ''file_cleanup'' then
            (case getitem task ''source_dir'' of
               Inl e \<Rightarrow> (Inl e, w)
             | Inr source_dir \<Rightarrow>
                 execute_file_cleanup w source_dir
                   (get_default task ''days_old'' (PInt 7))
                   (get_default task ''file_pattern'' (PStr ''*'')))
          else if task_type = PStr ''file_backup'' then
            (case getitem task ''source_dir'' of
               Inl e \<Rightarrow> (Inl e, w)
             | Inr source_dir \<Rightarrow>
                 (case getitem task ''backup_dir'' of
                    Inl e \<Rightarrow> (Inl e, w)
                  | Inr backup_dir \<Rightarrow> execute_file_backup w source_dir backup_dir))
          else if task_type = PStr ''alert'' then
            (case getitem task ''message'' of
               Inl e \<Rightarrow> (Inl e, w)
             | Inr message \<Rightarrow> execute_alert w message)
          else (Inr [], w))"

text \<open>
  \<^verbatim>\<open>self.tasks[name][field] = value\<close>: \<^verbatim>\<open>self.tasks[name]\<close> raises \<open>KeyError\<close> when the
  name is not in the mapping.
\<close>

definition set_field :: "manager \<Rightarrow> string \<Rightarrow> string \<Rightarrow> pyval \<Rightarrow> exn + manager" where
  "set_field m name field v =
     (case map_of (tasks m) name of
        None \<Rightarrow> Inl (KeyError name)
      | Some t \<Rightarrow> Inr (m\<lparr>tasks := AList.update name (AList.update field v t) (tasks m)\<rparr>))"

text \<open>The last four statements of the \<^verbatim>\<open>try\<close> block: record the run and its result, save.\<close>

definition record_result :: "manager \<Rightarrow> string \<Rightarrow> string \<Rightarrow> (exn + bool) \<times> manager" where
  "record_result m name result =
     (case set_field m name ''last_run'' (PStr (now_isoformat (os m))) of
        Inl e \<Rightarrow> (Inl e, m)
      | Inr m1 \<Rightarrow>
          (case set_field m1 name ''last_result'' (PStr result) of
             Inl e \<Rightarrow> (Inl e, m1)
           | Inr m2 \<Rightarrow>
               (case save_tasks m2 of
                  (Inl e, m3) \<Rightarrow> (Inl e, m3)
                | (Inr u, m3) \<Rightarrow> (Inr True, m3))))"

text \<open>
  The \<^verbatim>\<open>except Exception as e\<close> clause of \<^verbatim>\<open>execute_task\<close>: the text of the exception is
  stored as \<^verbatim>\<open>last_result\<close>, the mapping is saved and the call returns \<^verbatim>\<open>False\<close>. An
  exception raised in the clause itself leaves \<^verbatim>\<open>execute_task\<close>.
\<close>

definition record_failure :: "manager \<Rightarrow> string \<Rightarrow> exn \<Rightarrow> (exn + bool) \<times> manager" where
  "record_failure m name e =
     (case set_field m name ''last_result'' (PStr (''Error: '' @ str_exn e)) of
        Inl e' \<Rightarrow> (Inl e', m)
      | Inr m1 \<Rightarrow>
          (case save_tasks m1 of
             (Inl e', m2) \<Rightarrow> (Inl e', m2)
           | (Inr u, m2) \<Rightarrow> (Inr False, m2)))"

text \<open>
  \<^verbatim>\<open>execute_task(name, task)\<close>. The test of \<^verbatim>\<open>task['enabled']\<close> stands before the \<^verbatim>\<open>try\<close>.
  What the body did to the world stays done when the body raises, and what the \<^verbatim>\<open>try\<close>
  block stored stays stored when the save raises.
\<close>

definition execute_task :: "manager \<Rightarrow> string \<Rightarrow> task \<Rightarrow> (exn + bool) \<times> manager" where
  "execute_task m name task =
     (case getitem task ''enabled'' of
        Inl e \<Rightarrow> (Inl e, m)
      | Inr en \<Rightarrow>
          if \<not> truthy en then (Inr False, m)
          else
            (case run_body (os m) task of
               (Inl e, w) \<Rightarrow> record_failure (m\<lparr>os := w\<rparr>) name e
             | (Inr result, w) \<Rightarrow>
                 (case record_result (m\<lparr>os := w\<rparr>) name result of
                    (Inl e, m1) \<Rightarrow> record_failure m1 name e
                  | (Inr b, m1) \<Rightarrow> (Inr b, m1))))"

section \<open>Rebuilding the recurrence set\<close>

text \<open>
  The loop of \<^verbatim>\<open>schedule_tasks\<close> over \<^verbatim>\<open>self.tasks.items()\<close>, after \<^verbatim>\<open>schedule.clear()\<close>. A task
  whose \<^verbatim>\<open>enabled\<close> is false is skipped. For the others the schedule string is analysed
  and a job is registered with the \<^verbatim>\<open>schedule\<close> library; \<open>rule_of\<close> stands for that
  analysis and registration: the recurrence registered for a schedule value, none when
  the string fits no form, or the exception raised on the way. The result is the
  exception that ended the loop, if any, and the jobs registered, in order.
\<close>

fun schedule_tasks ::
    "(pyval \<Rightarrow> exn + 'r option) \<Rightarrow> store \<Rightarrow> exn option \<times> (string \<times> 'r) list" where
  "schedule_tasks rule_of [] = (None, [])"
| "schedule_tasks rule_of ((name, task) # rest) =
     (case getitem task ''enabled'' of
        Inl e \<Rightarrow> (Some e, [])
      | Inr en \<Rightarrow>
          if \<not> truthy en then schedule_tasks rule_of rest
          else
            (case getitem task ''schedule'' of
               Inl e \<Rightarrow> (Some e, [])
             | Inr schedule_time \<Rightarrow>
                 (case rule_of schedule_time of
                    Inl e \<Rightarrow> (Some e, [])
                  | Inr None \<Rightarrow> schedule_tasks rule_of rest
                  | Inr (Some r) \<Rightarrow>
                      (case schedule_tasks rule_of rest of
                         (x, jobs) \<Rightarrow> (x, (name, r) # jobs)))))"

section \<open>Reading the state, and sample states\<close>

text \<open>The value of a field of the task stored under a name, if there is one.\<close>

definition field_of :: "manager \<Rightarrow> string \<Rightarrow> string \<Rightarrow> pyval option" where
  "field_of m name field =
     (case map_of (tasks m) name of None \<Rightarrow> None | Some t \<Rightarrow> map_of t field)"

text \<open>
  A world in which nothing is refused: no document yet, an empty log, an empty file
  system.
\<close>

definition quiet_world :: world where
  "quiet_world =
     \<lparr>time_time = 1000,
      now_isoformat = ''2024-05-01T09:00:00'',
      now_backup_stamp = ''20240501_090000'',
      now_alert_stamp = ''2024-05-01 09:00:00'',
      config_doc = NoFile,
      alert_log = [],
      nodes = (\<lambda>p. None),
      denied = (\<lambda>p. False),
      why_denied = (\<lambda>p. (13, ''Permission denied'')),
      glob_of = (\<lambda>d pat. Inr [])\<rparr>"

text \<open>An alert task as \<^verbatim>\<open>add_task\<close> builds it, and a manager holding just that task.\<close>

definition ping_task :: task where
  "ping_task =
     [(''type'', PStr ''alert''),
      (''schedule'', PStr ''every 1h''),
      (''created'', PStr ''2024-04-30T08:00:00''),
      (''enabled'', PBool True),
      (''last_run'', PNone),
      (''message'', PStr ''ping'')]"

definition ping_manager :: manager where
  "ping_manager =
     \<lparr>tasks = [(''ping'', ping_task)], running = False, spawned = 0, os = quiet_world\<rparr>"

text \<open>A disabled copy of the alert task, and a manager holding it.\<close>

definition paused_task :: task where
  "paused_task =
     [(''type'', PStr ''alert''),
      (''schedule'', PStr ''every 1h''),
      (''created'', PStr ''2024-04-30T08:00:00''),
      (''enabled'', PBool False),
      (''last_run'', PStr ''2024-04-30T09:00:00''),
      (''message'', PStr ''ping''),
      (''last_result'', PStr ''Alert logged: ping'')]"

definition paused_manager :: manager where
  "paused_manager =
     \<lparr>tasks = [(''ping'', paused_task)], running = True, spawned = 1,
      os = quiet_world\<lparr>config_doc := JsonOf [(''ping'', paused_task)]\<rparr>\<rparr>"

text \<open>A world in which the alert log may not be opened, and the alert task in it.\<close>

definition locked_log_world :: world where
  "locked_log_world = quiet_world\<lparr>denied := (\<lambda>p. p = alert_file)\<rparr>"

definition locked_log_manager :: manager where
  "locked_log_manager =
     \<lparr>tasks = [(''ping'', ping_task)], running = False, spawned = 0, os = locked_log_world\<rparr>"

text \<open>A cleanup task whose \<^verbatim>\<open>days_old\<close> is \<^verbatim>\<open>null\<close> in the document, and a manager holding it.\<close>

definition sweep_task :: task where
  "sweep_task =
     [(''type'', PStr ''file_cleanup''),
      (''schedule'', PStr ''every day''),
      (''created'', PStr ''2024-04-30T08:00:00''),
      (''enabled'', PBool True),
      (''last_run'', PNone),
      (''source_dir'', PStr ''/var/logs''),
      (''days_old'', PNone),
      (''file_pattern'', PStr ''*.log'')]"

text \<open>A task of a type the dispatch does not know, and a manager holding it.\<close>

definition odd_task :: task where
  "odd_task =
     [(''type'', PStr ''email''),
      (''schedule'', PStr ''every 1h''),
      (''created'', PStr ''2024-04-30T08:00:00''),
      (''enabled'', PBool True),
      (''last_run'', PNone)]"

definition odd_manager :: manager where
  "odd_manager =
     \<lparr>tasks = [(''odd'', odd_task)], running = False, spawned = 0, os = quiet_world\<rparr>"


text \<open>
  A directory with two log files at clock time 1000: one written at time 10, one stamped
  with the later time 2000.
\<close>

definition logs_world :: world where
  "logs_world =
     quiet_world
       \<lparr>nodes := (\<lambda>p. if p = ''/var/logs'' then Some Dir
                       else if p = ''/var/logs/old.log'' then Some (File 10)
                       else if p = ''/var/logs/new.log'' then Some (File 2000)
                       else None),
        glob_of := (\<lambda>d pat. if d = ''/var/logs'' \<and> pat = ''*.log''
                             then Inr [''/var/logs/old.log'', ''/var/logs/new.log'']
                             else Inr [])\<rparr>"

definition sweep_manager :: manager where
  "sweep_manager =
     \<lparr>tasks = [(''sweep'', sweep_task)], running = False, spawned = 0, os = logs_world\<rparr>"


text \<open>A backup task whose backup directory is the path of an existing file.\<close>

definition mirror_task :: task where
  "mirror_task =
     [(''type'', PStr ''file_backup''),
      (''schedule'', PStr ''09:00''),
      (''created'', PStr ''2024-04-30T08:00:00''),
      (''enabled'', PBool True),
      (''last_run'', PNone),
      (''source_dir'', PStr ''/var/logs''),
      (''backup_dir'', PStr ''/var/logs/old.log'')]"

definition mirror_manager :: manager where
  "mirror_manager =
     \<lparr>tasks = [(''mirror'', mirror_task)], running = False, spawned = 0, os = logs_world\<rparr>"

text \<open>
  The keyword parameters of a task: the five names under which the route \<^verbatim>\<open>add_task\<close>
  collects the parameters of the three task types from the form, in the order in which
  it stores them, each present or not.
\<close>

record params =
  source_dir_arg :: "pyval option"
  backup_dir_arg :: "pyval option"
  days_old_arg :: "pyval option"
  file_pattern_arg :: "pyval option"
  message_arg :: "pyval option"

definition keyword :: "string \<Rightarrow> pyval option \<Rightarrow> task" where
  "keyword k arg = (case arg of None \<Rightarrow> [] | Some v \<Rightarrow> [(k, v)])"

definition kwargs_of :: "params \<Rightarrow> task" where
  "kwargs_of p =
     keyword ''source_dir'' (source_dir_arg p) @ keyword ''backup_dir'' (backup_dir_arg p)
     @ keyword ''days_old'' (days_old_arg p) @ keyword ''file_pattern'' (file_pattern_arg p)
     @ keyword ''message'' (message_arg p)"

text \<open>The parameters of an alert with the message \<^verbatim>\<open>pong\<close>.\<close>

definition pong_params :: params where
  "pong_params =
     \<lparr>source_dir_arg = None, backup_dir_arg = None, days_old_arg = None,
      file_pattern_arg = None, message_arg = Some (PStr ''pong'')\<rparr>"

text \<open>
  A world in which the persisted document may not be written, and the managers of the
  alert task and of the task of unknown type in it.
\<close>

definition locked_doc_world :: world where
  "locked_doc_world = quiet_world\<lparr>denied := (\<lambda>p. p = config_file)\<rparr>"

definition stuck_ping_manager :: manager where
  "stuck_ping_manager =
     \<lparr>tasks = [(''ping'', ping_task)], running = False, spawned = 0, os = locked_doc_world\<rparr>"

definition stuck_odd_manager :: manager where
  "stuck_odd_manager =
     \<lparr>tasks = [(''odd'', odd_task)], running = False, spawned = 0, os = locked_doc_world\<rparr>"



section \<open>Facts about the store operations\<close>

declare show_nat.simps [simp del]

lemma restart_scheduler_frame [simp]:
  "tasks (restart_scheduler m) = tasks m" "os (restart_scheduler m) = os m"
  by (simp_all add: restart_scheduler_def start_scheduler_def stop_scheduler_def)

lemma field_of_os [simp]: "field_of (m\<lparr>os := w\<rparr>) name field = field_of m name field"
  by (simp add: field_of_def)

lemma map_of_fold_update:
  "k \<notin> fst ` set kw \<Longrightarrow>
     map_of (fold (\<lambda>(k, v). AList.update k v) kw base) k = map_of base k"
  by (induction kw arbitrary: base) (auto simp: update_conv')

lemma new_task_fixed_fields:
  assumes "k \<notin> fst ` set kwargs"
  shows "map_of (new_task w ty sched kwargs) k =
           map_of [(''type'', ty), (''schedule'', sched), (''created'', PStr (now_isoformat w)),
                   (''enabled'', PBool True), (''last_run'', PNone)] k"
  unfolding new_task_def using assms by (rule map_of_fold_update)

text \<open>The names of the keyword parameters are none of the fixed fields.\<close>

lemma kwargs_of_keys:
  "fst ` set (kwargs_of p)
     \<subseteq> {''source_dir'', ''backup_dir'', ''days_old'', ''file_pattern'', ''message''}"
  by (auto simp: kwargs_of_def keyword_def split: option.splits)

lemma kwargs_of_fresh:
  "''enabled'' \<notin> fst ` set (kwargs_of p)"
  "''created'' \<notin> fst ` set (kwargs_of p)"
  "''last_run'' \<notin> fst ` set (kwargs_of p)"
  using kwargs_of_keys [of p] by auto

text \<open>What \<^verbatim>\<open>add_task\<close> leaves in memory, whatever the save does, and what it returns.\<close>

lemma add_task_tasks:
  "tasks (snd (add_task m name ty sched kwargs)) =
     AList.update name (new_task (os m) ty sched kwargs) (tasks m)"
  by (simp add: add_task_def save_tasks_def Let_def)

lemma add_task_returns:
  "fst (add_task m name ty sched kwargs) =
     (if denied (os m) config_file
      then Inl (os_error (why_denied (os m) config_file) config_file) else Inr True)"
  by (simp add: add_task_def save_tasks_def Let_def)

lemma toggle_task_tasks:
  assumes "map_of (tasks m) name = Some t" and "map_of t ''enabled'' = Some v"
  shows "tasks (snd (toggle_task m name)) =
           AList.update name (AList.update ''enabled'' (PBool (\<not> truthy v)) t) (tasks m)"
  using assms
  by (simp add: toggle_task_def getitem_def save_tasks_def)

text \<open>
  The rebuilt recurrence set reads \<^verbatim>\<open>enabled\<close> through its truth value only, so storing
  that truth value in place of the field changes no job.
\<close>

lemma schedule_tasks_update:
  assumes "map_of ts name = Some t" and "map_of t ''enabled'' = Some v"
  shows "schedule_tasks rule_of (AList.update name (AList.update ''enabled'' (PBool (truthy v)) t) ts)
           = schedule_tasks rule_of ts"
  using assms
proof (induction ts)
  case Nil
  then show ?case by simp
next
  case (Cons p ts)
  obtain n t0 where p: "p = (n, t0)" by (cases p)
  show ?case
  proof (cases "n = name")
    case True
    with Cons.prems p have "t0 = t" by simp
    with True p Cons.prems(2) show ?thesis
      by (simp add: getitem_def update_conv')
  next
    case False
    with Cons.prems p have "map_of ts name = Some t" by simp
    then have "schedule_tasks rule_of
                 (AList.update name (AList.update ''enabled'' (PBool (truthy v)) t) ts)
               = schedule_tasks rule_of ts"
      using Cons.IH Cons.prems(2) by simp
    with False p show ?thesis by (simp cong: sum.case_cong option.case_cong if_cong)
  qed
qed

section \<open>Loading the persisted document\<close>




text \<open>A document that may not be opened makes \<^verbatim>\<open>load_tasks\<close> raise as well.\<close>

lemma load_tasks_locked:
  "config_doc w = Locked n msg \<Longrightarrow> load_tasks w = Inl (OSError n msg config_file)"
  by (simp add: load_tasks_def)

section \<open>Writing through\<close>

text \<open>What a successful save wrote is what the next load reads.\<close>

lemma save_then_load:
  "save_tasks m = (Inr u, m') \<Longrightarrow> load_tasks (os m') = Inr (tasks m) \<and> tasks m' = tasks m"
  by (auto simp: save_tasks_def load_tasks_def split: if_splits)

text \<open>
  Claim C6. Whenever \<^verbatim>\<open>add_task\<close>, \<^verbatim>\<open>remove_task\<close> or \<^verbatim>\<open>toggle_task\<close> returns \<^verbatim>\<open>True\<close>, the
  mapping holds the change (the task added or replaced, the name deleted, the flag
  flipped) and the persisted document is the serialisation of exactly that mapping.
\<close>

theorem write_through:
  "(add_task m name task_type schedule_time kwargs = (Inr True, m') \<longrightarrow>
      config_doc (os m') = JsonOf (tasks m') \<and>
      tasks m' = AList.update name (new_task (os m) task_type schedule_time kwargs) (tasks m))
   \<and> (remove_task m name = (Inr True, m') \<longrightarrow>
      config_doc (os m') = JsonOf (tasks m') \<and> tasks m' = AList.delete name (tasks m))
   \<and> (toggle_task m name = (Inr True, m') \<longrightarrow>
      config_doc (os m') = JsonOf (tasks m') \<and>
      (\<exists>t v. map_of (tasks m) name = Some t \<and> map_of t ''enabled'' = Some v \<and>
         tasks m' = AList.update name (AList.update ''enabled'' (PBool (\<not> truthy v)) t) (tasks m)))"
  by (auto simp: add_task_def remove_task_def toggle_task_def save_tasks_def getitem_def Let_def
           split: if_splits option.splits)

theorem write_through_witness:
  "fst (add_task ping_manager ''nightly'' (PStr ''file_backup'') (PStr ''09:00'')
          [(''source_dir'', PStr ''/data''), (''backup_dir'', PStr ''/backups'')]) = Inr True
   \<and> config_doc (os (snd (add_task ping_manager ''nightly'' (PStr ''file_backup'') (PStr ''09:00'')
          [(''source_dir'', PStr ''/data''), (''backup_dir'', PStr ''/backups'')])))
       = JsonOf (tasks (snd (add_task ping_manager ''nightly'' (PStr ''file_backup'') (PStr ''09:00'')
          [(''source_dir'', PStr ''/data''), (''backup_dir'', PStr ''/backups'')])))
   \<and> fst (remove_task ping_manager ''ping'') = Inr True
   \<and> config_doc (os (snd (remove_task ping_manager ''ping''))) = JsonOf []
   \<and> fst (toggle_task ping_manager ''ping'') = Inr True
   \<and> config_doc (os (snd (toggle_task ping_manager ''ping'')))
       = JsonOf (tasks (snd (toggle_task ping_manager ''ping'')))"
proof -
  let ?kw = "[(''source_dir'', PStr ''/data''), (''backup_dir'', PStr ''/backups'')]"
  let ?a = "add_task ping_manager ''nightly'' (PStr ''file_backup'') (PStr ''09:00'') ?kw"
  have a: "fst ?a = Inr True"
    by (simp add: add_task_def save_tasks_def ping_manager_def quiet_world_def Let_def)
  then have a': "?a = (Inr True, snd ?a)"
    by (metis prod.collapse)
  have r: "fst (remove_task ping_manager ''ping'') = Inr True"
    by (simp add: remove_task_def save_tasks_def ping_manager_def quiet_world_def)
  then have r': "remove_task ping_manager ''ping'' = (Inr True, snd (remove_task ping_manager ''ping''))"
    by (metis prod.collapse)
  have t: "fst (toggle_task ping_manager ''ping'') = Inr True"
    by (simp add: toggle_task_def save_tasks_def getitem_def ping_manager_def ping_task_def
          quiet_world_def)
  then have t': "toggle_task ping_manager ''ping'' = (Inr True, snd (toggle_task ping_manager ''ping''))"
    by (metis prod.collapse)
  have d: "AList.delete ''ping'' (tasks ping_manager) = []"
    by (simp add: ping_manager_def)
  from write_through [of ping_manager "''nightly''" "PStr ''file_backup''" "PStr ''09:00''" ?kw "snd ?a"] a'
  have 1: "config_doc (os (snd ?a)) = JsonOf (tasks (snd ?a))" by blast
  from write_through [of ping_manager "''ping''" _ _ _ "snd (remove_task ping_manager ''ping'')"] r'
  have "config_doc (os (snd (remove_task ping_manager ''ping'')))
          = JsonOf (AList.delete ''ping'' (tasks ping_manager))" by metis
  then have 2: "config_doc (os (snd (remove_task ping_manager ''ping''))) = JsonOf []"
    by (simp only: d)
  from write_through [of ping_manager "''ping''" _ _ _ "snd (toggle_task ping_manager ''ping'')"] t'
  have 3: "config_doc (os (snd (toggle_task ping_manager ''ping'')))
       = JsonOf (tasks (snd (toggle_task ping_manager ''ping'')))" by blast
  from a r t 1 2 3 show ?thesis by blast
qed

section \<open>Adding over an existing name\<close>

text \<open>
  Claim C7, as stated, fails: \<^verbatim>\<open>add_task\<close> returns only after \<^verbatim>\<open>save_tasks\<close>, and when the
  document may not be written the \<^verbatim>\<open>OSError\<close> of the save leaves \<^verbatim>\<open>add_task\<close> in place of
  the result. Adding over the stored task \<^verbatim>\<open>ping\<close> in such a world raises.
\<close>

theorem add_task_unwritable:
  "''ping'' \<in> fst ` set (tasks stuck_ping_manager)
   \<and> fst (add_task stuck_ping_manager ''ping'' (PStr ''alert'') (PStr ''09:00'')
            (kwargs_of pong_params))
        = Inl (OSError 13 ''Permission denied'' ''web_tasks.json'')"
  by (simp add: add_task_def save_tasks_def stuck_ping_manager_def locked_doc_world_def
        quiet_world_def config_file_def os_error_def Let_def)

text \<open>
  Claim C7, amended. For a name already in the mapping, \<^verbatim>\<open>add_task\<close> replaces the prior
  definition in place: the names and their order are as before, so there is no duplicate
  and the size is unchanged, and the task now stored has \<^verbatim>\<open>enabled = True\<close>, \<^verbatim>\<open>created\<close> set
  to the current time and \<^verbatim>\<open>last_run = None\<close>. \<^verbatim>\<open>add_task\<close> returns \<^verbatim>\<open>True\<close> when the document
  can be written; when it cannot, the \<^verbatim>\<open>OSError\<close> of the save leaves \<^verbatim>\<open>add_task\<close>.
\<close>

theorem add_task_overwrites:
  assumes "name \<in> fst ` set (tasks m)"
    and "distinct (map fst (tasks m))"
  shows "map fst (tasks (snd (add_task m name ty sched (kwargs_of p)))) = map fst (tasks m)
    \<and> distinct (map fst (tasks (snd (add_task m name ty sched (kwargs_of p)))))
    \<and> length (tasks (snd (add_task m name ty sched (kwargs_of p)))) = length (tasks m)
    \<and> map_of (tasks (snd (add_task m name ty sched (kwargs_of p)))) name
         = Some (new_task (os m) ty sched (kwargs_of p))
    \<and> field_of (snd (add_task m name ty sched (kwargs_of p))) name ''enabled''
         = Some (PBool True)
    \<and> field_of (snd (add_task m name ty sched (kwargs_of p))) name ''created''
         = Some (PStr (now_isoformat (os m)))
    \<and> field_of (snd (add_task m name ty sched (kwargs_of p))) name ''last_run'' = Some PNone
    \<and> (\<not> denied (os m) config_file \<longrightarrow>
          fst (add_task m name ty sched (kwargs_of p)) = Inr True)
    \<and> (denied (os m) config_file \<longrightarrow>
          fst (add_task m name ty sched (kwargs_of p))
            = Inl (os_error (why_denied (os m) config_file) config_file))"
proof -
  let ?m' = "snd (add_task m name ty sched (kwargs_of p))"
  let ?t = "new_task (os m) ty sched (kwargs_of p)"
  have t: "tasks ?m' = AList.update name ?t (tasks m)"
    by (rule add_task_tasks)
  have keys: "map fst (tasks ?m') = map fst (tasks m)"
    using assms(1) by (simp add: t update_keys)
  have len: "length (tasks ?m') = length (tasks m)"
    using keys by (metis length_map)
  have look: "map_of (tasks ?m') name = Some ?t"
    by (simp add: t update_conv')
  have f1: "map_of ?t ''enabled'' = Some (PBool True)"
    by (simp add: new_task_fixed_fields kwargs_of_fresh)
  have f2: "map_of ?t ''created'' = Some (PStr (now_isoformat (os m)))"
    by (simp add: new_task_fixed_fields kwargs_of_fresh)
  have f3: "map_of ?t ''last_run'' = Some PNone"
    by (simp add: new_task_fixed_fields kwargs_of_fresh)
  show ?thesis
    using keys len look f1 f2 f3 assms(2) by (simp add: field_of_def add_task_returns)
qed

theorem add_task_overwrites_witness:
  "''ping'' \<in> fst ` set (tasks ping_manager)
   \<and> distinct (map fst (tasks ping_manager))
   \<and> \<not> denied (os ping_manager) config_file
   \<and> fst (add_task ping_manager ''ping'' (PStr ''alert'') (PStr ''09:00'') (kwargs_of pong_params))
        = Inr True
   \<and> length (tasks (snd (add_task ping_manager ''ping'' (PStr ''alert'') (PStr ''09:00'')
                              (kwargs_of pong_params)))) = 1
   \<and> field_of (snd (add_task ping_manager ''ping'' (PStr ''alert'') (PStr ''09:00'')
                       (kwargs_of pong_params))) ''ping'' ''enabled'' = Some (PBool True)
   \<and> field_of (snd (add_task ping_manager ''ping'' (PStr ''alert'') (PStr ''09:00'')
                       (kwargs_of pong_params))) ''ping'' ''created''
        = Some (PStr ''2024-05-01T09:00:00'')
   \<and> field_of (snd (add_task ping_manager ''ping'' (PStr ''alert'') (PStr ''09:00'')
                       (kwargs_of pong_params))) ''ping'' ''last_run'' = Some PNone
   \<and> ''ping'' \<in> fst ` set (tasks stuck_ping_manager)
   \<and> distinct (map fst (tasks stuck_ping_manager))
   \<and> denied (os stuck_ping_manager) config_file
   \<and> fst (add_task stuck_ping_manager ''ping'' (PStr ''alert'') (PStr ''09:00'')
            (kwargs_of pong_params))
        = Inl (OSError 13 ''Permission denied'' ''web_tasks.json'')
   \<and> field_of (snd (add_task stuck_ping_manager ''ping'' (PStr ''alert'') (PStr ''09:00'')
                       (kwargs_of pong_params))) ''ping'' ''enabled'' = Some (PBool True)"
proof -
  have a: "''ping'' \<in> fst ` set (tasks ping_manager)"
    and b: "distinct (map fst (tasks ping_manager))"
    and c: "\<not> denied (os ping_manager) config_file"
    and d: "now_isoformat (os ping_manager) = ''2024-05-01T09:00:00''"
    and e: "length (tasks ping_manager) = 1"
    by (simp_all add: ping_manager_def quiet_world_def)
  have a': "''ping'' \<in> fst ` set (tasks stuck_ping_manager)"
    and b': "distinct (map fst (tasks stuck_ping_manager))"
    and c': "denied (os stuck_ping_manager) config_file"
    and w': "os_error (why_denied (os stuck_ping_manager) config_file) config_file
               = OSError 13 ''Permission denied'' ''web_tasks.json''"
    by (simp_all add: stuck_ping_manager_def locked_doc_world_def quiet_world_def os_error_def
          config_file_def)
  from add_task_overwrites [OF a b, of "PStr ''alert''" "PStr ''09:00''" pong_params] c d e
  have 1: "fst (add_task ping_manager ''ping'' (PStr ''alert'') (PStr ''09:00'') (kwargs_of pong_params))
        = Inr True
   \<and> length (tasks (snd (add_task ping_manager ''ping'' (PStr ''alert'') (PStr ''09:00'')
                              (kwargs_of pong_params)))) = 1
   \<and> field_of (snd (add_task ping_manager ''ping'' (PStr ''alert'') (PStr ''09:00'')
                       (kwargs_of pong_params))) ''ping'' ''enabled'' = Some (PBool True)
   \<and> field_of (snd (add_task ping_manager ''ping'' (PStr ''alert'') (PStr ''09:00'')
                       (kwargs_of pong_params))) ''ping'' ''created''
        = Some (PStr ''2024-05-01T09:00:00'')
   \<and> field_of (snd (add_task ping_manager ''ping'' (PStr ''alert'') (PStr ''09:00'')
                       (kwargs_of pong_params))) ''ping'' ''last_run'' = Some PNone"
    by simp
  from add_task_overwrites [OF a' b', of "PStr ''alert''" "PStr ''09:00''" pong_params] c' w'
  have 2: "fst (add_task stuck_ping_manager ''ping'' (PStr ''alert'') (PStr ''09:00'')
            (kwargs_of pong_params))
        = Inl (OSError 13 ''Permission denied'' ''web_tasks.json'')
   \<and> field_of (snd (add_task stuck_ping_manager ''ping'' (PStr ''alert'') (PStr ''09:00'')
                       (kwargs_of pong_params))) ''ping'' ''enabled'' = Some (PBool True)"
    by simp
  from a b c a' b' c' 1 2 show ?thesis by blast
qed

section \<open>Toggling twice\<close>

text \<open>
  Claim C8. \<^verbatim>\<open>toggle_task\<close> returns \<^verbatim>\<open>False\<close> and changes nothing when the name is absent.
  For a stored task with an \<^verbatim>\<open>enabled\<close> field, one toggle negates the truth value of the
  field and a second toggle restores it; when the field held a boolean the whole mapping
  is as it was before; and the recurrence set that \<^verbatim>\<open>schedule_tasks\<close> rebuilds from the
  mapping is the one it built before the two toggles.
\<close>

theorem toggle_twice:
  "(map_of (tasks m) name = None \<longrightarrow> toggle_task m name = (Inr False, m))
   \<and> (map_of (tasks m) name = Some t \<and> map_of t ''enabled'' = Some v \<longrightarrow>
        map_option truthy (field_of (snd (toggle_task m name)) name ''enabled'')
          = Some (\<not> truthy v)
      \<and> map_option truthy
          (field_of (snd (toggle_task (snd (toggle_task m name)) name)) name ''enabled'')
          = map_option truthy (field_of m name ''enabled'')
      \<and> (v = PBool (truthy v) \<longrightarrow>
           tasks (snd (toggle_task (snd (toggle_task m name)) name)) = tasks m)
      \<and> schedule_tasks rule_of (tasks (snd (toggle_task (snd (toggle_task m name)) name)))
          = schedule_tasks rule_of (tasks m))"
proof (intro conjI impI)
  assume "map_of (tasks m) name = None"
  then show "toggle_task m name = (Inr False, m)" by (simp add: toggle_task_def)
next
  assume a: "map_of (tasks m) name = Some t \<and> map_of t ''enabled'' = Some v"
  let ?t1 = "AList.update ''enabled'' (PBool (\<not> truthy v)) t"
  let ?m1 = "snd (toggle_task m name)"
  let ?m2 = "snd (toggle_task ?m1 name)"
  have t1: "tasks ?m1 = AList.update name ?t1 (tasks m)"
    using a by (simp add: toggle_task_tasks)
  have l1: "map_of (tasks ?m1) name = Some ?t1"
    by (simp add: t1 update_conv')
  have e1: "map_of ?t1 ''enabled'' = Some (PBool (\<not> truthy v))"
    by (simp add: update_conv')
  have t2: "tasks ?m2 = AList.update name (AList.update ''enabled'' (PBool (truthy v)) t) (tasks m)"
    using toggle_task_tasks [OF l1 e1] by (simp add: t1)
  show "map_option truthy (field_of ?m1 name ''enabled'') = Some (\<not> truthy v)"
    by (simp add: field_of_def l1 e1)
  show "map_option truthy (field_of ?m2 name ''enabled'')
          = map_option truthy (field_of m name ''enabled'')"
    using a by (simp add: field_of_def t2 update_conv')
  show "schedule_tasks rule_of (tasks ?m2) = schedule_tasks rule_of (tasks m)"
    using a by (simp add: t2 schedule_tasks_update)
  assume "v = PBool (truthy v)"
  with a have "AList.update ''enabled'' (PBool (truthy v)) t = t"
    by (simp add: update_triv)
  with a show "tasks ?m2 = tasks m"
    by (simp add: t2 update_triv)
qed

theorem toggle_twice_witness:
  "map_of (tasks ping_manager) ''pong'' = None
   \<and> toggle_task ping_manager ''pong'' = (Inr False, ping_manager)
   \<and> map_of (tasks ping_manager) ''ping'' = Some ping_task
   \<and> map_of ping_task ''enabled'' = Some (PBool True)
   \<and> field_of ping_manager ''ping'' ''enabled'' = Some (PBool True)
   \<and> map_option truthy (field_of (snd (toggle_task ping_manager ''ping'')) ''ping'' ''enabled'')
       = Some False
   \<and> map_option truthy
        (field_of (snd (toggle_task (snd (toggle_task ping_manager ''ping'')) ''ping''))
           ''ping'' ''enabled'')
       = Some True
   \<and> tasks (snd (toggle_task (snd (toggle_task ping_manager ''ping'')) ''ping''))
       = tasks ping_manager"
proof -
  have a: "map_of (tasks ping_manager) ''pong'' = None"
    by (simp add: ping_manager_def)
  have b: "map_of (tasks ping_manager) ''ping'' = Some ping_task"
    by (simp add: ping_manager_def)
  have c: "map_of ping_task ''enabled'' = Some (PBool True)"
    by (simp add: ping_task_def)
  have d: "field_of ping_manager ''ping'' ''enabled'' = Some (PBool True)"
    by (simp add: field_of_def b c)
  have e: "PBool True = PBool (truthy (PBool True))"
    by simp
  from a toggle_twice [of ping_manager "''pong''"]
  have 1: "toggle_task ping_manager ''pong'' = (Inr False, ping_manager)"
    by blast
  from b c d e
    toggle_twice [of ping_manager "''ping''" ping_task "PBool True" "\<lambda>s. Inr (Some s)"]
  have 2: "map_option truthy (field_of (snd (toggle_task ping_manager ''ping'')) ''ping'' ''enabled'')
         = Some False
     \<and> map_option truthy
          (field_of (snd (toggle_task (snd (toggle_task ping_manager ''ping'')) ''ping''))
             ''ping'' ''enabled'')
         = Some True
     \<and> tasks (snd (toggle_task (snd (toggle_task ping_manager ''ping'')) ''ping''))
         = tasks ping_manager"
    by simp
  from a b c d 1 2 show ?thesis by blast
qed

section \<open>Executing a disabled task\<close>

text \<open>
  Claim C5. For a task whose \<^verbatim>\<open>enabled\<close> is \<^verbatim>\<open>False\<close>, \<^verbatim>\<open>execute_task\<close> returns \<^verbatim>\<open>False\<close> and
  the state after the call is the state before it: every field of every task, the
  persisted document and the rest of the world are untouched.
\<close>

theorem execute_task_disabled:
  "map_of task ''enabled'' = Some (PBool False) \<Longrightarrow> execute_task m name task = (Inr False, m)"
  by (simp add: execute_task_def getitem_def)

theorem execute_task_disabled_witness:
  "map_of paused_task ''enabled'' = Some (PBool False)
   \<and> execute_task paused_manager ''ping'' paused_task = (Inr False, paused_manager)
   \<and> field_of paused_manager ''ping'' ''last_run'' = Some (PStr ''2024-04-30T09:00:00'')"
proof -
  have a: "map_of paused_task ''enabled'' = Some (PBool False)"
    by (simp add: paused_task_def)
  have b: "field_of paused_manager ''ping'' ''last_run'' = Some (PStr ''2024-04-30T09:00:00'')"
    by (simp add: field_of_def paused_manager_def paused_task_def)
  from execute_task_disabled [OF a, of paused_manager "''ping''"] a b
  show ?thesis by blast
qed

section \<open>Facts about execution\<close>

lemma set_field_present:
  "map_of (tasks m) name = Some t \<Longrightarrow>
     set_field m name field v =
       Inr (m\<lparr>tasks := AList.update name (AList.update field v t) (tasks m)\<rparr>)"
  by (simp add: set_field_def)

text \<open>
  The \<^verbatim>\<open>except\<close> clause on a stored task: what it leaves in memory, whatever the save
  does, and what it returns.
\<close>

lemma record_failure_fields:
  assumes "map_of (tasks m) name = Some t"
  shows "field_of (snd (record_failure m name e)) name field
           = (if field = ''last_result'' then Some (PStr (''Error: '' @ str_exn e))
              else map_of t field)"
  using assms
  by (simp add: record_failure_def set_field_present save_tasks_def field_of_def update_conv')

lemma record_failure_returns:
  assumes "map_of (tasks m) name = Some t"
  shows "fst (record_failure m name e) =
           (if denied (os m) config_file
            then Inl (os_error (why_denied (os m) config_file) config_file) else Inr False)"
  using assms
  by (simp add: record_failure_def set_field_present save_tasks_def)

text \<open>The end of the \<^verbatim>\<open>try\<close> block on a stored task.\<close>

lemma record_result_present:
  assumes "map_of (tasks m) name = Some t"
  shows "record_result m name result =
     (let m2 = m\<lparr>tasks := AList.update name
                    (AList.update ''last_result'' (PStr result)
                       (AList.update ''last_run'' (PStr (now_isoformat (os m))) t)) (tasks m)\<rparr>
      in if denied (os m) config_file
         then (Inl (os_error (why_denied (os m) config_file) config_file), m2)
         else (Inr True, m2\<lparr>os := (os m)\<lparr>config_doc := JsonOf (tasks m2)\<rparr>\<rparr>))"
  using assms
  by (simp add: record_result_def set_field_def save_tasks_def update_conv' Let_def)

lemma execute_task_raised:
  assumes "map_of task ''enabled'' = Some en" and "truthy en"
    and "run_body (os m) task = (Inl e, w)"
  shows "execute_task m name task = record_failure (m\<lparr>os := w\<rparr>) name e"
  using assms by (simp add: execute_task_def getitem_def)

lemma execute_task_returned:
  assumes "map_of task ''enabled'' = Some en" and "truthy en"
    and "run_body (os m) task = (Inr result, w)"
    and "map_of (tasks m) name = Some t"
    and "\<not> denied w config_file"
  shows "execute_task m name task =
           (Inr True,
            m\<lparr>tasks := AList.update name
                         (AList.update ''last_result'' (PStr result)
                            (AList.update ''last_run'' (PStr (now_isoformat w)) t)) (tasks m),
              os := w\<lparr>config_doc := JsonOf (AList.update name
                         (AList.update ''last_result'' (PStr result)
                            (AList.update ''last_run'' (PStr (now_isoformat w)) t)) (tasks m))\<rparr>\<rparr>)"
proof -
  have p: "map_of (tasks (m\<lparr>os := w\<rparr>)) name = Some t"
    using assms(4) by simp
  show ?thesis
    using assms(1,2,3,5)
    by (simp add: execute_task_def getitem_def record_result_present [OF p] Let_def)
qed

text \<open>
  When the body returned but the save of the \<^verbatim>\<open>try\<close> block raises, the \<^verbatim>\<open>except\<close> clause
  runs on the mapping that already holds the run and its result.
\<close>

lemma execute_task_save_raised:
  assumes "map_of task ''enabled'' = Some en" and "truthy en"
    and "run_body (os m) task = (Inr result, w)"
    and "map_of (tasks m) name = Some t"
    and "denied w config_file"
  shows "execute_task m name task =
           record_failure
             (m\<lparr>os := w,
                tasks := AList.update name
                         (AList.update ''last_result'' (PStr result)
                            (AList.update ''last_run'' (PStr (now_isoformat w)) t)) (tasks m)\<rparr>)
             name (os_error (why_denied w config_file) config_file)"
proof -
  have p: "map_of (tasks (m\<lparr>os := w\<rparr>)) name = Some t"
    using assms(4) by simp
  show ?thesis
    using assms(1,2,3,5)
    by (simp add: execute_task_def getitem_def record_result_present [OF p] Let_def)
qed

text \<open>
  What the two file bodies make of an exception of their \<^verbatim>\<open>try\<close> block: the result text
  \<^verbatim>\<open>Error: \<close> followed by the text of the exception. Neither body lets one out.
\<close>

lemma caught_failure_text:
  "cleanup_try w source_dir days_old file_pattern = (Inl e, w') \<Longrightarrow>
     execute_file_cleanup w source_dir days_old file_pattern = (Inr (''Error: '' @ str_exn e), w')"
  "backup_try w source_dir backup_dir = (Inl e, w') \<Longrightarrow>
     execute_file_backup w source_dir backup_dir = (Inr (''Error: '' @ str_exn e), w')"
  by (simp_all add: execute_file_cleanup_def execute_file_backup_def error_text_def)

lemma file_bodies_never_raise:
  "fst (execute_file_cleanup w source_dir days_old file_pattern) \<noteq> Inl e"
  "fst (execute_file_backup w source_dir backup_dir) \<noteq> Inl e"
  by (auto simp: execute_file_cleanup_def execute_file_backup_def error_text_def
        split: prod.splits sum.splits)

text \<open>
  So a failure inside the cleanup or the backup body is an attempt like any other to
  \<^verbatim>\<open>execute_task\<close>: for a stored task and a writable document the call returns \<^verbatim>\<open>True\<close>,
  stamps \<^verbatim>\<open>last_run\<close> and records the failure text.
\<close>

lemma file_body_failure_recorded:
  assumes "map_of task ''enabled'' = Some en" and "truthy en"
    and "map_of (tasks m) name = Some t"
    and "\<not> denied w config_file"
    and "map_of task ''source_dir'' = Some source_dir"
    and "map_of task ''type'' = Some (PStr ''file_cleanup'')
           \<and> cleanup_try (os m) source_dir (get_default task ''days_old'' (PInt 7))
                (get_default task ''file_pattern'' (PStr ''*'')) = (Inl e, w)
         \<or> map_of task ''type'' = Some (PStr ''file_backup'')
           \<and> map_of task ''backup_dir'' = Some backup_dir
           \<and> backup_try (os m) source_dir backup_dir = (Inl e, w)"
  shows "fst (execute_task m name task) = Inr True
    \<and> field_of (snd (execute_task m name task)) name ''last_run'' = Some (PStr (now_isoformat w))
    \<and> field_of (snd (execute_task m name task)) name ''last_result''
         = Some (PStr (''Error: '' @ str_exn e))"
proof -
  have r: "run_body (os m) task = (Inr (''Error: '' @ str_exn e), w)"
    using assms(5,6) by (auto simp: run_body_def getitem_def caught_failure_text)
  show ?thesis
    by (simp add: execute_task_returned [OF assms(1,2) r assms(3,4)] field_of_def update_conv')
qed

text \<open>
  The cleanup task whose \<^verbatim>\<open>days_old\<close> is \<^verbatim>\<open>None\<close>: the body fails at the product, and
  \<^verbatim>\<open>execute_task\<close> returns \<^verbatim>\<open>True\<close> with the run stamped and the failure text recorded.
\<close>

lemma sweep_failure_recorded:
  "fst (cleanup_try (os sweep_manager) (PStr ''/var/logs'') PNone (PStr ''*.log''))
     = Inl (TypeError (''unsupported operand type(s) for *: '' @ [CHR 0x27] @ ''NoneType''
                         @ [CHR 0x27] @ '' and '' @ [CHR 0x27] @ ''int'' @ [CHR 0x27]))
   \<and> fst (execute_task sweep_manager ''sweep'' sweep_task) = Inr True
   \<and> field_of (snd (execute_task sweep_manager ''sweep'' sweep_task)) ''sweep'' ''last_run''
        = Some (PStr ''2024-05-01T09:00:00'')
   \<and> field_of (snd (execute_task sweep_manager ''sweep'' sweep_task)) ''sweep'' ''last_result''
        = Some (PStr (''Error: unsupported operand type(s) for *: '' @ [CHR 0x27] @ ''NoneType''
                         @ [CHR 0x27] @ '' and '' @ [CHR 0x27] @ ''int'' @ [CHR 0x27]))"
  by (simp add: execute_task_def run_body_def getitem_def get_default_def sweep_task_def
        sweep_manager_def execute_file_cleanup_def cleanup_try_def error_text_def
        record_result_def record_failure_def set_field_def save_tasks_def field_of_def
        logs_world_def quiet_world_def config_file_def)

text \<open>
  The backup task whose backup directory is an existing file: the body fails at \<^verbatim>\<open>mkdir\<close>,
  and \<^verbatim>\<open>execute_task\<close> again returns \<^verbatim>\<open>True\<close> with the run stamped and the text recorded.
\<close>

lemma mirror_failure_recorded:
  "fst (backup_try (os mirror_manager) (PStr ''/var/logs'') (PStr ''/var/logs/old.log''))
     = Inl (OSError 17 ''File exists'' ''/var/logs/old.log'')
   \<and> fst (execute_task mirror_manager ''mirror'' mirror_task) = Inr True
   \<and> field_of (snd (execute_task mirror_manager ''mirror'' mirror_task)) ''mirror'' ''last_run''
        = Some (PStr ''2024-05-01T09:00:00'')
   \<and> field_of (snd (execute_task mirror_manager ''mirror'' mirror_task)) ''mirror'' ''last_result''
        = Some (PStr (''Error: [Errno 17] File exists: '' @ [CHR 0x27] @ ''/var/logs/old.log''
                        @ [CHR 0x27]))"
  by (simp add: execute_task_def run_body_def getitem_def mirror_task_def
        mirror_manager_def execute_file_backup_def backup_try_def mkdir_def error_text_def
        record_result_def record_failure_def set_field_def save_tasks_def field_of_def
        logs_world_def quiet_world_def config_file_def path_str_def render_path_def
        path_root_def path_parts_def py_repr_str_def quote_of_def escape_char_def
        show_nat.simps)

section \<open>A task whose body raises\<close>

text \<open>
  Claim C1 does not hold of an alert task. The alert body raises where the log may not
  be opened (there is no \<^verbatim>\<open>try\<close> around it, as there is in the two file bodies), the
  exception reaches the \<^verbatim>\<open>except\<close> clause of \<^verbatim>\<open>execute_task\<close>, and the call returns \<^verbatim>\<open>False\<close>
  although the task is enabled and the attempt happened. The failure text is recorded.
\<close>

theorem execute_task_returns_false_on_raise:
  "map_of ping_task ''enabled'' = Some (PBool True)
   \<and> fst (run_body (os locked_log_manager) ping_task)
        = Inl (OSError 13 ''Permission denied'' ''web_alerts.log'')
   \<and> fst (execute_task locked_log_manager ''ping'' ping_task) = Inr False
   \<and> field_of (snd (execute_task locked_log_manager ''ping'' ping_task)) ''ping'' ''last_result''
        = Some (PStr (''Error: [Errno 13] Permission denied: '' @ [CHR 0x27] @ ''web_alerts.log''
                        @ [CHR 0x27]))"
  by (simp add: execute_task_def run_body_def getitem_def ping_task_def execute_alert_def
        locked_log_manager_def locked_log_world_def record_failure_def set_field_def
        save_tasks_def quiet_world_def config_file_def alert_file_def field_of_def
        os_error_def py_repr_str_def quote_of_def escape_char_def show_nat.simps)

section \<open>The time of the last run\<close>

text \<open>
  Claim C2 does not hold of an alert task. The enabled alert task, never run before, is
  executed in a world where the log may not be opened: its body raises, the \<^verbatim>\<open>except\<close>
  clause of \<^verbatim>\<open>execute_task\<close> records the failure text, and \<^verbatim>\<open>last_run\<close> is still \<^verbatim>\<open>None\<close>
  after the attempt.
\<close>

theorem last_run_kept_on_raise:
  "map_of ping_task ''enabled'' = Some (PBool True)
   \<and> fst (run_body (os locked_log_manager) ping_task)
        = Inl (OSError 13 ''Permission denied'' ''web_alerts.log'')
   \<and> field_of locked_log_manager ''ping'' ''last_run'' = Some PNone
   \<and> field_of (snd (execute_task locked_log_manager ''ping'' ping_task)) ''ping'' ''last_run''
        = Some PNone"
  by (simp add: execute_task_def run_body_def getitem_def ping_task_def execute_alert_def
        locked_log_manager_def locked_log_world_def record_failure_def set_field_def
        save_tasks_def quiet_world_def config_file_def alert_file_def field_of_def
        os_error_def)

section \<open>A task of an unknown type\<close>

text \<open>
  Claim C10, as stated, fails: the run is recorded by \<^verbatim>\<open>save_tasks\<close>, and when the document
  may not be written the \<^verbatim>\<open>OSError\<close> of the save is caught, the \<^verbatim>\<open>except\<close> clause stores its
  text as \<^verbatim>\<open>last_result\<close> and saves again, and that second \<^verbatim>\<open>OSError\<close> leaves
  \<^verbatim>\<open>execute_task\<close>. The enabled task of unknown type, executed in such a world, gives no
  \<^verbatim>\<open>True\<close> and no empty \<^verbatim>\<open>last_result\<close>.
\<close>

theorem execute_task_unknown_type_unwritable:
  "map_of (tasks stuck_odd_manager) ''odd'' = Some odd_task
   \<and> map_of odd_task ''enabled'' = Some (PBool True)
   \<and> map_of odd_task ''type'' = Some (PStr ''email'')
   \<and> fst (execute_task stuck_odd_manager ''odd'' odd_task)
        = Inl (OSError 13 ''Permission denied'' ''web_tasks.json'')
   \<and> field_of (snd (execute_task stuck_odd_manager ''odd'' odd_task)) ''odd'' ''last_result''
        = Some (PStr (''Error: [Errno 13] Permission denied: '' @ [CHR 0x27] @ ''web_tasks.json''
                        @ [CHR 0x27]))"
  by (simp add: execute_task_def run_body_def getitem_def odd_task_def stuck_odd_manager_def
        locked_doc_world_def record_result_def record_failure_def set_field_def
        save_tasks_def quiet_world_def config_file_def field_of_def
        os_error_def py_repr_str_def quote_of_def escape_char_def show_nat.simps)

text \<open>
  Claim C10, amended. For an enabled task of the store, executed under its name, whose
  \<^verbatim>\<open>type\<close> is none of \<^verbatim>\<open>file_cleanup\<close>, \<^verbatim>\<open>file_backup\<close>, \<^verbatim>\<open>alert\<close>: when the document can be
  written, \<^verbatim>\<open>execute_task\<close> returns \<^verbatim>\<open>True\<close>, sets \<^verbatim>\<open>last_run\<close> to the current time and records
  the empty string as \<^verbatim>\<open>last_result\<close>, and nothing of the world changes but the document,
  which is rewritten; when the document cannot be written, the \<^verbatim>\<open>OSError\<close> of the save
  leaves \<^verbatim>\<open>execute_task\<close>.
\<close>

theorem execute_task_unknown_type:
  assumes "map_of (tasks m) name = Some task"
    and "map_of task ''enabled'' = Some en" and "truthy en"
    and "map_of task ''type'' = Some ty"
    and "ty \<noteq> PStr ''file_cleanup''" and "ty \<noteq> PStr ''file_backup''" and "ty \<noteq> PStr ''alert''"
  shows "(\<not> denied (os m) config_file \<longrightarrow>
            fst (execute_task m name task) = Inr True
          \<and> field_of (snd (execute_task m name task)) name ''last_run''
               = Some (PStr (now_isoformat (os m)))
          \<and> field_of (snd (execute_task m name task)) name ''last_result'' = Some (PStr [])
          \<and> os (snd (execute_task m name task))
               = (os m)\<lparr>config_doc := JsonOf (tasks (snd (execute_task m name task)))\<rparr>)
    \<and> (denied (os m) config_file \<longrightarrow>
            fst (execute_task m name task)
              = Inl (os_error (why_denied (os m) config_file) config_file))"
proof (intro conjI impI)
  have b: "run_body (os m) task = (Inr [], os m)"
    using assms(4,5,6,7) by (simp add: run_body_def getitem_def)
  {
    assume w: "\<not> denied (os m) config_file"
    note x = execute_task_returned [OF assms(2,3) b assms(1) w]
    show "fst (execute_task m name task) = Inr True"
      by (simp add: x)
    show "field_of (snd (execute_task m name task)) name ''last_run''
            = Some (PStr (now_isoformat (os m)))"
      by (simp add: x field_of_def update_conv')
    show "field_of (snd (execute_task m name task)) name ''last_result'' = Some (PStr [])"
      by (simp add: x field_of_def update_conv')
    show "os (snd (execute_task m name task))
            = (os m)\<lparr>config_doc := JsonOf (tasks (snd (execute_task m name task)))\<rparr>"
      by (simp add: x)
  }
  {
    assume d: "denied (os m) config_file"
    let ?m2 = "m\<lparr>os := os m,
                  tasks := AList.update name
                    (AList.update ''last_result'' (PStr [])
                       (AList.update ''last_run'' (PStr (now_isoformat (os m))) task)) (tasks m)\<rparr>"
    have l: "map_of (tasks ?m2) name
               = Some (AList.update ''last_result'' (PStr [])
                         (AList.update ''last_run'' (PStr (now_isoformat (os m))) task))"
      by (simp add: update_conv')
    show "fst (execute_task m name task)
            = Inl (os_error (why_denied (os m) config_file) config_file)"
      using d record_failure_returns [OF l]
      by (simp add: execute_task_save_raised [OF assms(2,3) b assms(1) d])
  }
qed

theorem execute_task_unknown_type_witness:
  "map_of (tasks odd_manager) ''odd'' = Some odd_task
   \<and> map_of odd_task ''enabled'' = Some (PBool True) \<and> truthy (PBool True)
   \<and> map_of odd_task ''type'' = Some (PStr ''email'')
   \<and> \<not> denied (os odd_manager) config_file
   \<and> fst (execute_task odd_manager ''odd'' odd_task) = Inr True
   \<and> field_of (snd (execute_task odd_manager ''odd'' odd_task)) ''odd'' ''last_run''
        = Some (PStr ''2024-05-01T09:00:00'')
   \<and> field_of (snd (execute_task odd_manager ''odd'' odd_task)) ''odd'' ''last_result''
        = Some (PStr [])
   \<and> map_of (tasks stuck_odd_manager) ''odd'' = Some odd_task
   \<and> denied (os stuck_odd_manager) config_file
   \<and> fst (execute_task stuck_odd_manager ''odd'' odd_task)
        = Inl (OSError 13 ''Permission denied'' ''web_tasks.json'')"
proof -
  have a: "map_of odd_task ''enabled'' = Some (PBool True)"
    and t: "map_of odd_task ''type'' = Some (PStr ''email'')"
    by (simp_all add: odd_task_def)
  have b: "truthy (PBool True)" by simp
  have n: "PStr ''email'' \<noteq> PStr ''file_cleanup''" "PStr ''email'' \<noteq> PStr ''file_backup''"
    "PStr ''email'' \<noteq> PStr ''alert''"
    by simp_all
  have c: "map_of (tasks odd_manager) ''odd'' = Some odd_task"
    by (simp add: odd_manager_def)
  have d: "\<not> denied (os odd_manager) config_file"
    by (simp add: odd_manager_def quiet_world_def)
  have i: "now_isoformat (os odd_manager) = ''2024-05-01T09:00:00''"
    by (simp add: odd_manager_def quiet_world_def)
  have c': "map_of (tasks stuck_odd_manager) ''odd'' = Some odd_task"
    and d': "denied (os stuck_odd_manager) config_file"
    and w': "os_error (why_denied (os stuck_odd_manager) config_file) config_file
               = OSError 13 ''Permission denied'' ''web_tasks.json''"
    by (simp_all add: stuck_odd_manager_def locked_doc_world_def quiet_world_def os_error_def
          config_file_def)
  from execute_task_unknown_type [OF c a b t n] d i
  have 1: "fst (execute_task odd_manager ''odd'' odd_task) = Inr True
     \<and> field_of (snd (execute_task odd_manager ''odd'' odd_task)) ''odd'' ''last_run''
          = Some (PStr ''2024-05-01T09:00:00'')
     \<and> field_of (snd (execute_task odd_manager ''odd'' odd_task)) ''odd'' ''last_result''
          = Some (PStr [])"
    by simp
  from execute_task_unknown_type [OF c' a b t n] d' w'
  have 2: "fst (execute_task stuck_odd_manager ''odd'' odd_task)
        = Inl (OSError 13 ''Permission denied'' ''web_tasks.json'')"
    by simp
  from a b t c d 1 c' d' 2 show ?thesis by blast
qed

section \<open>The boundary of the task bodies\<close>

text \<open>
  Claim C3 does not hold of the alert body. \<^verbatim>\<open>execute_file_cleanup\<close> and
  \<^verbatim>\<open>execute_file_backup\<close> wrap their work in \<^verbatim>\<open>try\<close> and return the text of a failure
  (\<open>file_bodies_never_raise\<close>, \<open>caught_failure_text\<close>); \<^verbatim>\<open>execute_alert\<close> has no such
  wrapper. Where the log may not be opened for appending, the exception leaves the
  alert body.
\<close>

theorem execute_alert_raises:
  "execute_alert locked_log_world (PStr ''ping'')
     = (Inl (OSError 13 ''Permission denied'' ''web_alerts.log''), locked_log_world)"
  by (simp add: execute_alert_def locked_log_world_def quiet_world_def os_error_def
        alert_file_def)

section \<open>Cleanup with a zero age limit\<close>










end
